theory Spec2Isabelle
  imports Main
begin

section \<open>Shared vocabulary: status codes, response bodies, requests\<close>

text \<open>
  Modelled from the spec: the module \<^verbatim>\<open>shared/utils/http-status\<close> that every middleware
  imports its status constants from. The error table of the specification fixes the
  numbers: authentication failures are 401, permission failures 403, rate limiting 429.
\<close>

definition OK :: nat where
  "OK = 200"

definition UNAUTHORIZED :: nat where
  "UNAUTHORIZED = 401"

definition FORBIDDEN :: nat where
  "FORBIDDEN = 403"

definition TOO_MANY_REQUESTS :: nat where
  "TOO_MANY_REQUESTS = 429"

text \<open>
  A response body. \<open>FormatError title detail\<close> stands for the value of
  \<^verbatim>\<open>formatError(title, detail)\<close> of \<^verbatim>\<open>shared/utils/response-formatter\<close>: the two
  arguments are kept, the layout of the object is not interpreted.
  \<open>NotFoundBody url\<close> is the object \<^verbatim>\<open>{error: 'Not Found', message: `Route ${url} not found`, code: 404}\<close>,
  \<open>HealthBody\<close> and \<open>MetricsBody\<close> the objects of the health and metrics endpoints,
  \<open>EmptyBody\<close> a response that ends with no content, \<open>UpstreamBody\<close> whatever a
  backend sent.
\<close>

datatype body =
    FormatError string string
  | NotFoundBody string
  | HealthBody
  | MetricsBody
  | EmptyBody
  | UpstreamBody string

record response =
  status :: nat
  body :: body

text \<open>
  The object \<^verbatim>\<open>req.user\<close> built by \<^verbatim>\<open>authenticate\<close>. The gateway's middleware sets
  \<^verbatim>\<open>id, email, roles, permissions\<close>; the services' middleware adds \<^verbatim>\<open>name\<close>, which is
  \<open>None\<close> where the property is not set.
\<close>

record identity =
  user_id :: string
  user_email :: string
  user_name :: "string option"
  user_roles :: "string list"
  user_permissions :: "string list"

text \<open>
  A step of an Express middleware: it either calls \<^verbatim>\<open>next()\<close>, handing the (mutated)
  request on, or it sends a response and the chain stops there.
\<close>

datatype 'a step = Next 'a | Respond response

section \<open>Tokens, keys and the environment\<close>

text \<open>
  A key of the published key set: \<^verbatim>\<open>{ kid, kty, n, e, alg }\<close>. A key set is the
  \<^verbatim>\<open>keys\<close> array of the JWKS document, in the document's order.
\<close>

record jwk =
  jwk_kid :: string
  jwk_kty :: string
  jwk_n :: string
  jwk_e :: string
  jwk_alg :: string

record jwt_header =
  alg :: string
  kid :: "string option"

text \<open>
  The claims the middleware reads. \<open>None\<close> is a claim that is not in the token;
  \<open>exp\<close> is in seconds since the epoch, as in every JWT.
\<close>

record claims =
  sub :: string
  email :: string
  name :: "string option"
  roles :: "string list option"
  permissions :: "string list option"
  iss :: string
  aud :: string
  exp :: int

text \<open>
  The signature is symbolic: \<open>signer\<close> is the text of the public key under which the
  signature of the token verifies. A token is the compact form of a JWT, or any other
  string (\<open>Opaque\<close>), which \<^verbatim>\<open>jwt.decode\<close> answers with \<^verbatim>\<open>null\<close>.
\<close>

record jwt =
  header :: jwt_header
  payload :: claims
  signer :: string

datatype token = Compact jwt | Opaque string

datatype error = Error string

text \<open>The only string that JavaScript takes for false is the empty one.\<close>

definition falsy :: "string \<Rightarrow> bool" where
  "falsy s = (s = '''')"

text \<open>\<^verbatim>\<open>!token\<close> for what \<^verbatim>\<open>extractToken\<close> returns: \<^verbatim>\<open>null\<close> or the empty string.\<close>

fun no_token :: "token option \<Rightarrow> bool" where
  "no_token None = True"
| "no_token (Some (Opaque s)) = falsy s"
| "no_token (Some (Compact j)) = False"

text \<open>\<^verbatim>\<open>process.env.X || d\<close>: an unset or empty variable gives the default.\<close>

fun or_default :: "string option \<Rightarrow> string \<Rightarrow> string" where
  "or_default None d = d"
| "or_default (Some v) d = (if falsy v then d else v)"

record env =
  TOKEN_ISSUER :: "string option"
  TOKEN_AUDIENCE :: "string option"
  AUTH_SERVICE_URL :: "string option"
  PROFILE_SERVICE_URL :: "string option"
  PROJECTS_SERVICE_URL :: "string option"
  BLOG_SERVICE_URL :: "string option"
  CONTACT_SERVICE_URL :: "string option"
  ANALYTICS_SERVICE_URL :: "string option"

section \<open>The \<^verbatim>\<open>jsonwebtoken\<close> calls\<close>

text \<open>\<^verbatim>\<open>jwt.decode(token, { complete: true })\<close>: no check, \<^verbatim>\<open>null\<close> on anything that is not a JWT.\<close>

fun jwt_decode :: "token \<Rightarrow> jwt option" where
  "jwt_decode (Compact j) = Some j"
| "jwt_decode (Opaque s) = None"

record verify_options =
  algorithms :: "string list"
  issuer :: string
  audience :: string

text \<open>
  \<^verbatim>\<open>jwt.verify(token, key, { algorithms, issuer, audience })\<close> at clock \<open>now\<close>
  (milliseconds, \<^verbatim>\<open>Date.now()\<close>), with the library's checks in the library's order and
  its messages: the algorithm against the allow-list, the signature under \<open>key\<close>, the
  expiry against the clock in seconds, the audience, the issuer.
\<close>

definition jwt_verify :: "int \<Rightarrow> token \<Rightarrow> string \<Rightarrow> verify_options \<Rightarrow> error + claims" where
  "jwt_verify now tok key options =
     (case jwt_decode tok of
        None \<Rightarrow> Inl (Error ''jwt malformed'')
      | Some j \<Rightarrow>
          if alg (header j) \<notin> set (algorithms options) then Inl (Error ''invalid algorithm'')
          else if signer j \<noteq> key then Inl (Error ''invalid signature'')
          else if exp (payload j) \<le> now div 1000 then Inl (Error ''jwt expired'')
          else if aud (payload j) \<noteq> audience options
            then Inl (Error (''jwt audience invalid. expected: '' @ audience options))
          else if iss (payload j) \<noteq> issuer options
            then Inl (Error (''jwt issuer invalid. expected: '' @ issuer options))
          else Inr (payload j))"

section \<open>Key resolution with the module's own cache\<close>

text \<open>
  The module variables \<^verbatim>\<open>jwksCache\<close> and \<^verbatim>\<open>jwksCacheTime\<close>. \<open>fetches\<close> is a ghost
  counter of the GET requests made to \<^verbatim>\<open>/.well-known/jwks.json\<close>; no code reads it.
\<close>

record jwks_state =
  jwksCache :: "jwk list option"
  jwksCacheTime :: "int option"
  fetches :: nat

definition JWKS_CACHE_TTL :: int where
  "JWKS_CACHE_TTL = 3600000"

text \<open>\<^verbatim>\<open>jwksCache && jwksCacheTime && (now - jwksCacheTime < JWKS_CACHE_TTL)\<close>\<close>

fun cache_hit :: "int \<Rightarrow> jwks_state \<Rightarrow> jwk list option" where
  "cache_hit now st =
     (case jwksCache st of
        None \<Rightarrow> None
      | Some c \<Rightarrow>
          (case jwksCacheTime st of
             None \<Rightarrow> None
           | Some t \<Rightarrow> if t \<noteq> 0 \<and> now - t < JWKS_CACHE_TTL then Some c else None))"

text \<open>
  \<open>net\<close> is what \<^verbatim>\<open>axios.get\<close> would answer at this moment: the key set, or \<open>None\<close>
  when the request throws.
\<close>

definition fetchJwks :: "int \<Rightarrow> jwk list option \<Rightarrow> jwks_state \<Rightarrow> (error + jwk list) \<times> jwks_state" where
  "fetchJwks now net st =
     (case cache_hit now st of
        Some c \<Rightarrow> (Inr c, st)
      | None \<Rightarrow>
          (case net of
             None \<Rightarrow> (Inl (Error ''Unable to fetch JWKS''), st\<lparr>fetches := fetches st + 1\<rparr>)
           | Some data \<Rightarrow>
               (Inr data, st\<lparr>jwksCache := Some data, jwksCacheTime := Some now,
                              fetches := fetches st + 1\<rparr>)))"

definition pem :: "jwk \<Rightarrow> string" where
  "pem key = ''-----BEGIN PUBLIC KEY-----'' @ [CHR 0x0A] @ jwk_n key @ [CHR 0x0A]
              @ ''-----END PUBLIC KEY-----''"

definition getPublicKey :: "string \<Rightarrow> int \<Rightarrow> jwk list option \<Rightarrow> jwks_state \<Rightarrow> (error + string) \<times> jwks_state" where
  "getPublicKey k now net st =
     (case fetchJwks now net st of
        (Inl e, st') \<Rightarrow>
          (Inl (Error ''Unable to retrieve public key for token verification''), st')
      | (Inr jwks, st') \<Rightarrow>
          (case find (\<lambda>key. jwk_kid key = k) jwks of
             None \<Rightarrow> (Inl (Error ''Unable to retrieve public key for token verification''), st')
           | Some key \<Rightarrow> (Inr (pem key), st')))"

definition verifyToken :: "env \<Rightarrow> int \<Rightarrow> jwk list option \<Rightarrow> token \<Rightarrow> jwks_state \<Rightarrow> (error + claims) \<times> jwks_state" where
  "verifyToken ev now net tok st =
     (case jwt_decode tok of
        None \<Rightarrow> (Inl (Error ''Invalid token''), st)
      | Some decoded \<Rightarrow>
          (case kid (header decoded) of
             None \<Rightarrow> (Inl (Error ''Invalid token''), st)
           | Some k \<Rightarrow>
               if falsy k then (Inl (Error ''Invalid token''), st)
               else
                 (case getPublicKey k now net st of
                    (Inl e, st') \<Rightarrow> (Inl (Error ''Invalid token''), st')
                  | (Inr publicKey, st') \<Rightarrow>
                      (case jwt_verify now tok publicKey
                              \<lparr>algorithms = [''RS256''],
                               issuer = or_default (TOKEN_ISSUER ev) ''portfolio-api'',
                               audience = or_default (TOKEN_AUDIENCE ev) ''portfolio-client''\<rparr> of
                         Inl e \<Rightarrow> (Inl (Error ''Invalid token''), st')
                       | Inr p \<Rightarrow> (Inr p, st')))))"

section \<open>Requests\<close>

text \<open>
  The \<^verbatim>\<open>Authorization\<close> header: \<open>Bearer t\<close> is a header that starts with
  \<^verbatim>\<open>'Bearer '\<close>, \<open>t\<close> being the rest of it (\<^verbatim>\<open>substring(7)\<close>, possibly empty);
  \<open>OtherScheme\<close> is any other header value.
\<close>

datatype authz = Bearer token | OtherScheme string

text \<open>
  The error that a body parser hands to \<^verbatim>\<open>next(err)\<close>: its status and its type
  (400 and \<^verbatim>\<open>entity.parse.failed\<close> for JSON that does not parse, 413 and
  \<^verbatim>\<open>entity.too.large\<close> for a body over the limit).
\<close>

datatype fault = Fault nat string

text \<open>What the content type of the request announces.\<close>

datatype payload_kind = NoPayload | JsonPayload | FormPayload | OtherPayload

text \<open>
  What the middleware reads and writes on \<^verbatim>\<open>req\<close>: the method (in capitals, as Node
  gives it), the path of the URL and its query string as written (empty, or from the
  question mark on), the authorization header, the parsed cookies, the \<^verbatim>\<open>token\<close> query
  parameter, the other headers as the client sent them (\<^verbatim>\<open>req.headers\<close>, names in lower
  case, each name once), the kind of the body and the error that the parser for that kind
  finds in it (\<open>None\<close> when the body parses), the request id, the client address (the
  rate limiter's key), and the two properties the pipeline sets, \<^verbatim>\<open>user\<close> and
  \<^verbatim>\<open>targetService\<close> (\<open>None\<close> while unset or \<^verbatim>\<open>null\<close>).
\<close>

record request =
  req_method :: string
  req_path :: string
  req_search :: string
  authorization :: "authz option"
  cookies :: "(string \<times> token) list"
  query_token :: "token option"
  req_headers :: "(string \<times> string) list"
  payload_kind :: payload_kind
  body_fault :: "fault option"
  req_id :: string
  req_ip :: string
  user :: "identity option"
  targetService :: "(string \<times> string) option"

text \<open>\<^verbatim>\<open>req.originalUrl\<close>, which for a request to the application is also \<^verbatim>\<open>req.url\<close>.\<close>

definition originalUrl :: "request \<Rightarrow> string" where
  "originalUrl req = req_path req @ req_search req"

text \<open>A property that is set and is not the empty string.\<close>

fun truthy_tok :: "token option \<Rightarrow> token option" where
  "truthy_tok t = (if no_token t then None else t)"

section \<open>The services' authentication middleware\<close>

definition extractToken :: "request \<Rightarrow> token option" where
  "extractToken req =
     (case authorization req of
        Some (Bearer t) \<Rightarrow> Some t
      | _ \<Rightarrow>
          (case truthy_tok (map_of (cookies req) ''accessToken'') of
             Some t \<Rightarrow> Some t
           | None \<Rightarrow>
               (case truthy_tok (query_token req) of
                  Some t \<Rightarrow> Some t
                | None \<Rightarrow> None)))"

text \<open>\<^verbatim>\<open>decoded.roles || []\<close>: an array is never false.\<close>

fun or_empty :: "string list option \<Rightarrow> string list" where
  "or_empty None = []"
| "or_empty (Some xs) = xs"

text \<open>\<^verbatim>\<open>decoded.name || decoded.email\<close>\<close>

fun name_or_email :: "claims \<Rightarrow> string" where
  "name_or_email decoded =
     (case name decoded of
        None \<Rightarrow> email decoded
      | Some n \<Rightarrow> if falsy n then email decoded else n)"

definition authenticate :: "bool \<Rightarrow> env \<Rightarrow> int \<Rightarrow> jwk list option \<Rightarrow> request \<Rightarrow> jwks_state \<Rightarrow> request step \<times> jwks_state" where
  "authenticate required ev now net req st =
     (let tok = extractToken req in
      if no_token tok \<and> required
        then (Respond \<lparr>status = UNAUTHORIZED,
                        body = FormatError ''Authentication required'' ''No token provided''\<rparr>, st)
      else if no_token tok \<and> \<not> required
        then (Next (req\<lparr>user := None\<rparr>), st)
      else
        (case tok of
           None \<Rightarrow> (Next (req\<lparr>user := None\<rparr>), st)
         | Some t \<Rightarrow>
             (case verifyToken ev now net t st of
                (Inr decoded, st') \<Rightarrow>
                  (Next (req\<lparr>user := Some \<lparr>user_id = sub decoded,
                                              user_email = email decoded,
                                              user_name = Some (name_or_email decoded),
                                              user_roles = or_empty (roles decoded),
                                              user_permissions = or_empty (permissions decoded)\<rparr>\<rparr>),
                   st')
              | (Inl (Error msg), st') \<Rightarrow>
                  if required
                    then (Respond \<lparr>status = UNAUTHORIZED,
                                    body = FormatError ''Authentication failed'' msg\<rparr>, st')
                  else (Next (req\<lparr>user := None\<rparr>), st'))))"

section \<open>The gateway's configuration\<close>

record auth_config =
  auth_issuer :: string
  auth_audience :: string
  auth_algorithms :: "string list"
  tokenCookieName :: string

record limiter_options =
  windowMs :: int
  max_hits :: nat
  limit_message :: "string option"

record gateway_config =
  rateLimiter :: limiter_options
  auth :: auth_config

text \<open>
  \<^verbatim>\<open>gateway.config.js\<close>, with the parts the pipeline reads: \<^verbatim>\<open>server.rateLimiter\<close>
  (its two header switches left out) and \<^verbatim>\<open>auth\<close>.
\<close>

definition config :: "env \<Rightarrow> gateway_config" where
  "config ev =
     \<lparr>rateLimiter = \<lparr>windowMs = 15 * 60 * 1000, max_hits = 100, limit_message = None\<rparr>,
      auth = \<lparr>auth_issuer = or_default (TOKEN_ISSUER ev) ''portfolio-api'',
               auth_audience = or_default (TOKEN_AUDIENCE ev) ''portfolio-client'',
               auth_algorithms = [''RS256''],
               tokenCookieName = ''access_token''\<rparr>\<rparr>"

section \<open>The gateway's authentication middleware\<close>

text \<open>
  The key client of the gateway is the library \<^verbatim>\<open>jwks-rsa\<close>. Its answer is a parameter:
  \<open>client k\<close> is the public key that \<^verbatim>\<open>(await jwksClient.getSigningKey(k)).getPublicKey()\<close>
  yields, or \<open>None\<close> when the call throws.
\<close>

definition getSigningKey :: "(string \<Rightarrow> string option) \<Rightarrow> string \<Rightarrow> error + string" where
  "getSigningKey client k =
     (case client k of
        Some key \<Rightarrow> Inr key
      | None \<Rightarrow> Inl (Error ''Unable to retrieve signing key''))"

text \<open>\<^verbatim>\<open>throw new Error(error.message || 'Invalid token')\<close>\<close>

fun rethrow :: "error \<Rightarrow> error" where
  "rethrow (Error m) = Error (if falsy m then ''Invalid token'' else m)"

definition verifyToken_gw :: "gateway_config \<Rightarrow> (string \<Rightarrow> string option) \<Rightarrow> int \<Rightarrow> token \<Rightarrow> error + claims" where
  "verifyToken_gw cfg client now tok =
     (case jwt_decode tok of
        None \<Rightarrow> Inl (rethrow (Error ''Invalid token format''))
      | Some decodedToken \<Rightarrow>
          (case kid (header decodedToken) of
             None \<Rightarrow> Inl (rethrow (Error ''Invalid token format''))
           | Some k \<Rightarrow>
               if falsy k then Inl (rethrow (Error ''Invalid token format''))
               else
                 (case getSigningKey client k of
                    Inl e \<Rightarrow> Inl (rethrow e)
                  | Inr signingKey \<Rightarrow>
                      (case jwt_verify now tok signingKey
                              \<lparr>algorithms = auth_algorithms (auth cfg),
                               issuer = auth_issuer (auth cfg),
                               audience = auth_audience (auth cfg)\<rparr> of
                         Inl e \<Rightarrow> Inl (rethrow e)
                       | Inr p \<Rightarrow> Inr p))))"

definition extractToken_gw :: "gateway_config \<Rightarrow> request \<Rightarrow> token option" where
  "extractToken_gw cfg req =
     (case authorization req of
        Some (Bearer t) \<Rightarrow> Some t
      | _ \<Rightarrow>
          (case truthy_tok (map_of (cookies req) (tokenCookieName (auth cfg))) of
             Some t \<Rightarrow> Some t
           | None \<Rightarrow>
               (case truthy_tok (query_token req) of
                  Some t \<Rightarrow> Some t
                | None \<Rightarrow> None)))"

definition authenticate_gw :: "bool \<Rightarrow> gateway_config \<Rightarrow> (string \<Rightarrow> string option) \<Rightarrow> int \<Rightarrow> request \<Rightarrow> request step" where
  "authenticate_gw required cfg client now req =
     (let tok = extractToken_gw cfg req in
      if no_token tok \<and> required
        then Respond \<lparr>status = UNAUTHORIZED,
                       body = FormatError ''Authentication required'' ''No token provided''\<rparr>
      else if no_token tok \<and> \<not> required
        then Next (req\<lparr>user := None\<rparr>)
      else
        (case tok of
           None \<Rightarrow> Next (req\<lparr>user := None\<rparr>)
         | Some t \<Rightarrow>
             (case verifyToken_gw cfg client now t of
                Inr decoded \<Rightarrow>
                  Next (req\<lparr>user := Some \<lparr>user_id = sub decoded,
                                             user_email = email decoded,
                                             user_name = None,
                                             user_roles = or_empty (roles decoded),
                                             user_permissions = or_empty (permissions decoded)\<rparr>\<rparr>)
              | Inl (Error msg) \<Rightarrow>
                  if required
                    then Respond \<lparr>status = UNAUTHORIZED,
                                   body = FormatError ''Authentication failed'' msg\<rparr>
                  else Next (req\<lparr>user := None\<rparr>))))"

section \<open>Authorization guard: \<^verbatim>\<open>hasRole\<close> and \<^verbatim>\<open>hasPermission\<close>\<close>

text \<open>The argument of both factories is a string or an array of strings.\<close>

datatype one_or_many = One string | Many "string list"

text \<open>\<^verbatim>\<open>Array.isArray(x) ? x : [x]\<close>\<close>

fun toArray :: "one_or_many \<Rightarrow> string list" where
  "toArray (One r) = [r]"
| "toArray (Many rs) = rs"

definition hasRole :: "one_or_many \<Rightarrow> request \<Rightarrow> request step" where
  "hasRole rs req =
     (let requiredRoles = toArray rs in
      case user req of
        None \<Rightarrow> Respond \<lparr>status = UNAUTHORIZED,
                          body = FormatError ''Authentication required'' ''User not authenticated''\<rparr>
      | Some u \<Rightarrow>
          (let hasRequiredRole = list_ex (\<lambda>role. role \<in> set (user_roles u)) requiredRoles in
           if \<not> hasRequiredRole
           then Respond \<lparr>status = FORBIDDEN,
                         body = FormatError ''Access denied'' ''Insufficient permissions''\<rparr>
           else Next req))"

definition hasPermission :: "one_or_many \<Rightarrow> request \<Rightarrow> request step" where
  "hasPermission ps req =
     (let requiredPermissions = toArray ps in
      case user req of
        None \<Rightarrow> Respond \<lparr>status = UNAUTHORIZED,
                          body = FormatError ''Authentication required'' ''User not authenticated''\<rparr>
      | Some u \<Rightarrow>
          (let hasRequiredPermissions =
                 list_all (\<lambda>permission. permission \<in> set (user_permissions u))
                          requiredPermissions in
           if \<not> hasRequiredPermissions
           then Respond \<lparr>status = FORBIDDEN,
                         body = FormatError ''Access denied'' ''Insufficient permissions''\<rparr>
           else Next req))"

section \<open>Rate limiter middleware\<close>

text \<open>The options object passed to \<^verbatim>\<open>createRateLimiter\<close>; \<open>None\<close> is a property left out.\<close>

record limiter_overrides =
  o_windowMs :: "int option"
  o_max :: "nat option"
  o_message :: "string option"

text \<open>\<^verbatim>\<open>{ ...defaultOptions, ...options }\<close>: a property of \<open>options\<close> wins.\<close>

definition createRateLimiter :: "gateway_config \<Rightarrow> limiter_overrides \<Rightarrow> limiter_options" where
  "createRateLimiter cfg options =
     (let defaultOptions = rateLimiter cfg in
      \<lparr>windowMs = (case o_windowMs options of Some w \<Rightarrow> w | None \<Rightarrow> windowMs defaultOptions),
       max_hits = (case o_max options of Some m \<Rightarrow> m | None \<Rightarrow> max_hits defaultOptions),
       limit_message = (case o_message options of Some m \<Rightarrow> Some m
                        | None \<Rightarrow> limit_message defaultOptions)\<rparr>)"

definition standardLimiter :: "gateway_config \<Rightarrow> limiter_options" where
  "standardLimiter cfg = createRateLimiter cfg \<lparr>o_windowMs = None, o_max = None, o_message = None\<rparr>"

definition strictLimiter :: "gateway_config \<Rightarrow> limiter_options" where
  "strictLimiter cfg =
     createRateLimiter cfg \<lparr>o_windowMs = Some (60 * 60 * 1000), o_max = Some 20,
                            o_message = Some ''Too many attempts, please try again later''\<rparr>"

definition publicLimiter :: "gateway_config \<Rightarrow> limiter_options" where
  "publicLimiter cfg =
     createRateLimiter cfg \<lparr>o_windowMs = Some (15 * 60 * 1000), o_max = Some 300, o_message = None\<rparr>"

text \<open>A whole number in a template literal: its decimal digits.\<close>

fun digit :: "nat \<Rightarrow> char" where
  "digit n = char_of (48 + n)"

function show_nat :: "nat \<Rightarrow> string" where
  "show_nat n = (if n < 10 then [digit n] else show_nat (n div 10) @ [digit (n mod 10)])"
  by pat_completeness auto
termination
  by (relation "measure id") auto

definition show_int :: "int \<Rightarrow> string" where
  "show_int i = (if i < 0 then CHR ''-'' # show_nat (nat (- i)) else show_nat (nat i))"

text \<open>\<^verbatim>\<open>Math.ceil(options.windowMs / 1000 / 60)\<close> for a whole number of milliseconds.\<close>

definition minutes_of :: "int \<Rightarrow> int" where
  "minutes_of w = - ((- w) div 60000)"

definition handler :: "limiter_options \<Rightarrow> response" where
  "handler options =
     \<lparr>status = TOO_MANY_REQUESTS,
      body = FormatError ''Too many requests''
               (''Please try again after '' @ show_int (minutes_of (windowMs options))
                  @ '' minutes'')\<rparr>"

text \<open>
  Modelled from the spec: the counting of the library \<^verbatim>\<open>express-rate-limit\<close> with its
  in-memory store, which \<^verbatim>\<open>rateLimit(limiterOptions)\<close> returns and the repository only
  configures. The specification's rate limiter is a fixed window per client key, with
  window boundaries aligned to the clock; every request increments the counter of its
  window, a counter of an earlier window counts as absent, and the request is rejected,
  through the configured handler, when the count after the increment exceeds the maximum.
  The client key is the address of the request. The counters are those of a process without
  \<^verbatim>\<open>REDIS_URL\<close>; the shared store that the module plugs in otherwise is not modelled.
  Where the library differs from the specification the model follows the specification:
  the library's store opens the window of a client at its first request, not on the clock,
  and some of its versions read a maximum of zero as no limit, where the specification's
  rule rejects every request.
\<close>

record counter =
  windowStart :: int
  hits :: nat

definition window_start :: "limiter_options \<Rightarrow> int \<Rightarrow> int" where
  "window_start options now = (now div windowMs options) * windowMs options"

definition hits_in_window :: "limiter_options \<Rightarrow> int \<Rightarrow> (string \<rightharpoonup> counter) \<Rightarrow> string \<Rightarrow> nat" where
  "hits_in_window options now store key =
     (case store key of
        None \<Rightarrow> 0
      | Some c \<Rightarrow> if windowStart c = window_start options now then hits c else 0)"

definition rateLimit :: "limiter_options \<Rightarrow> int \<Rightarrow> request \<Rightarrow> (string \<rightharpoonup> counter) \<Rightarrow> request step \<times> (string \<rightharpoonup> counter)" where
  "rateLimit options now req store =
     (let key = req_ip req;
          n = hits_in_window options now store key + 1;
          store' = store(key \<mapsto> \<lparr>windowStart = window_start options now, hits = n\<rparr>)
      in if max_hits options < n then (Respond (handler options), store') else (Next req, store'))"

section \<open>Route configuration\<close>

record route =
  route_path :: string
  route_method :: string
  route_auth :: bool

record service =
  svc_prefix :: string
  svc_target :: string
  svc_routes :: "route list"

definition rt :: "string \<Rightarrow> string \<Rightarrow> bool \<Rightarrow> route" where
  "rt p m a = \<lparr>route_path = p, route_method = m, route_auth = a\<rparr>"

text \<open>The object \<^verbatim>\<open>routes\<close>, as the list of its keys with their values, in the order written.\<close>

definition routes :: "env \<Rightarrow> (string \<times> service) list" where
  "routes ev =
   [(''auth'',
     \<lparr>svc_prefix = ''/api/auth'',
      svc_target = or_default (AUTH_SERVICE_URL ev) ''http://auth-service:3001'',
      svc_routes =
        [rt ''/login'' ''POST'' False,
         rt ''/register'' ''POST'' False,
         rt ''/refresh-token'' ''POST'' False,
         rt ''/logout'' ''POST'' True,
         rt ''/verify-email/:token'' ''GET'' False,
         rt ''/forgot-password'' ''POST'' False,
         rt ''/reset-password/:token'' ''POST'' False]\<rparr>),
    (''profile'',
     \<lparr>svc_prefix = ''/api/profiles'',
      svc_target = or_default (PROFILE_SERVICE_URL ev) ''http://profile-service:3002'',
      svc_routes =
        [rt '''' ''GET'' False,
         rt ''/:id'' ''GET'' False,
         rt ''/me'' ''GET'' True,
         rt ''/me'' ''PUT'' True,
         rt ''/me/skills'' ''POST'' True,
         rt ''/me/skills/:id'' ''PUT'' True,
         rt ''/me/skills/:id'' ''DELETE'' True,
         rt ''/me/experience'' ''POST'' True,
         rt ''/me/experience/:id'' ''PUT'' True,
         rt ''/me/experience/:id'' ''DELETE'' True]\<rparr>),
    (''projects'',
     \<lparr>svc_prefix = ''/api/projects'',
      svc_target = or_default (PROJECTS_SERVICE_URL ev) ''http://projects-service:3003'',
      svc_routes =
        [rt '''' ''GET'' False,
         rt ''/:id'' ''GET'' False,
         rt '''' ''POST'' True,
         rt ''/:id'' ''PUT'' True,
         rt ''/:id'' ''DELETE'' True,
         rt ''/:id/technologies'' ''POST'' True,
         rt ''/:id/technologies/:techId'' ''DELETE'' True]\<rparr>),
    (''blog'',
     \<lparr>svc_prefix = ''/api/blog'',
      svc_target = or_default (BLOG_SERVICE_URL ev) ''http://blog-service:3004'',
      svc_routes =
        [rt ''/articles'' ''GET'' False,
         rt ''/articles/:id'' ''GET'' False,
         rt ''/articles'' ''POST'' True,
         rt ''/articles/:id'' ''PUT'' True,
         rt ''/articles/:id'' ''DELETE'' True,
         rt ''/categories'' ''GET'' False,
         rt ''/categories'' ''POST'' True,
         rt ''/categories/:id'' ''PUT'' True,
         rt ''/categories/:id'' ''DELETE'' True,
         rt ''/articles/:id/comments'' ''GET'' False,
         rt ''/articles/:id/comments'' ''POST'' True,
         rt ''/comments/:id'' ''PUT'' True,
         rt ''/comments/:id'' ''DELETE'' True]\<rparr>),
    (''contact'',
     \<lparr>svc_prefix = ''/api/contact'',
      svc_target = or_default (CONTACT_SERVICE_URL ev) ''http://contact-service:3005'',
      svc_routes =
        [rt ''/messages'' ''POST'' False,
         rt ''/messages'' ''GET'' True,
         rt ''/messages/:id'' ''GET'' True,
         rt ''/messages/:id'' ''PUT'' True,
         rt ''/messages/:id'' ''DELETE'' True]\<rparr>),
    (''analytics'',
     \<lparr>svc_prefix = ''/api/analytics'',
      svc_target = or_default (ANALYTICS_SERVICE_URL ev) ''http://analytics-service:3006'',
      svc_routes =
        [rt ''/metrics'' ''GET'' True,
         rt ''/visitors'' ''GET'' True,
         rt ''/pageviews'' ''GET'' True,
         rt ''/track'' ''POST'' False]\<rparr>)]"

section \<open>Strings of the platform\<close>

text \<open>The lower-case and the upper-case form of a letter.\<close>

definition lower :: "char \<Rightarrow> char" where
  "lower c = (let n = (of_char c :: nat) in if 65 \<le> n \<and> n \<le> 90 then char_of (n + 32) else c)"

definition upper :: "char \<Rightarrow> char" where
  "upper c = (let n = (of_char c :: nat) in if 97 \<le> n \<and> n \<le> 122 then char_of (n - 32) else c)"

text \<open>\<^verbatim>\<open>s.startsWith(p)\<close> and \<^verbatim>\<open>s.includes(p)\<close>\<close>

definition startsWith :: "string \<Rightarrow> string \<Rightarrow> bool" where
  "startsWith s p = (take (length p) s = p)"

fun includes_str :: "string \<Rightarrow> string \<Rightarrow> bool" where
  "includes_str [] p = (p = [])"
| "includes_str (c # cs) p = (startsWith (c # cs) p \<or> includes_str cs p)"

text \<open>
  \<^verbatim>\<open>JSON.stringify\<close> of an array of strings, for strings of code units below 256: the
  elements quoted and separated by commas, with the escapes of the language (the quote,
  the backslash, the five short escapes, and four hexadecimal digits for every other
  control character).
\<close>

fun hex_digit :: "nat \<Rightarrow> char" where
  "hex_digit n = (if n < 10 then char_of (48 + n) else char_of (87 + n))"

definition json_escape :: "char \<Rightarrow> string" where
  "json_escape c =
     (if c = CHR 0x22 then [CHR 0x5C, CHR 0x22]
      else if c = CHR 0x5C then [CHR 0x5C, CHR 0x5C]
      else if c = CHR 0x08 then [CHR 0x5C, CHR ''b'']
      else if c = CHR 0x0C then [CHR 0x5C, CHR ''f'']
      else if c = CHR 0x0A then [CHR 0x5C, CHR ''n'']
      else if c = CHR 0x0D then [CHR 0x5C, CHR ''r'']
      else if c = CHR 0x09 then [CHR 0x5C, CHR ''t'']
      else if (of_char c :: nat) < 0x20
        then [CHR 0x5C, CHR ''u'', CHR ''0'', CHR ''0'',
              hex_digit (of_char c div 16), hex_digit (of_char c mod 16)]
      else [c])"

definition JSON_quote :: "string \<Rightarrow> string" where
  "JSON_quote s = CHR 0x22 # concat (map json_escape s) @ [CHR 0x22]"

fun join_comma :: "string list \<Rightarrow> string" where
  "join_comma [] = []"
| "join_comma [x] = x"
| "join_comma (x # y # ys) = x @ CHR '','' # join_comma (y # ys)"

definition JSON_stringify :: "string list \<Rightarrow> string" where
  "JSON_stringify xs = CHR ''['' # join_comma (map JSON_quote xs) @ [CHR '']'']"

section \<open>The gateway server\<close>

text \<open>
  The three limiter instances of the rate limiter module, and the middleware values that
  can stand in a chain: a limiter, \<^verbatim>\<open>authenticate(required)\<close>, the inline middleware
  that records the target service, the proxy middleware for a target, and the two guards
  of the authentication module.
\<close>

datatype limiter = Standard | Strict | Public

datatype stage =
    RateLimit limiter
  | Authenticate bool
  | SetTarget string string
  | Proxy string
  | HasRole one_or_many
  | HasPermission one_or_many

fun limiter_options_of :: "gateway_config \<Rightarrow> limiter \<Rightarrow> limiter_options" where
  "limiter_options_of cfg Standard = standardLimiter cfg"
| "limiter_options_of cfg Strict = strictLimiter cfg"
| "limiter_options_of cfg Public = publicLimiter cfg"

text \<open>The choice of the limiter in the set-up loop.\<close>

definition choose_limiter :: "route \<Rightarrow> string \<Rightarrow> bool \<Rightarrow> limiter" where
  "choose_limiter r fullPath isAuthRequired =
     (if route_method r = ''POST'' \<and> (includes_str fullPath ''/login'' \<or> includes_str fullPath ''/register'')
        then Strict
      else if \<not> isAuthRequired then Public
      else Standard)"

text \<open>The array of middleware that the loop registers for one route of one service.\<close>

definition route_chain :: "string \<Rightarrow> service \<Rightarrow> route \<Rightarrow> stage list" where
  "route_chain serviceKey svc r =
     (let fullPath = svc_prefix svc @ route_path r;
          isAuthRequired = (route_auth r = True);
          rateLimiter = choose_limiter r fullPath isAuthRequired
      in [RateLimit rateLimiter,
          (if isAuthRequired then Authenticate True else Authenticate False),
          SetTarget serviceKey (svc_target svc),
          Proxy (svc_target svc)])"

text \<open>
  The headers of an outgoing request. Node keeps one value for a header name and takes
  names without regard to case: \<^verbatim>\<open>setHeader\<close> replaces the header of that name, and
  \<open>getHeader\<close> is what a backend reads under a name.
\<close>

definition same_name :: "string \<Rightarrow> string \<Rightarrow> bool" where
  "same_name a b = (map lower a = map lower b)"

definition setHeader :: "string \<Rightarrow> string \<Rightarrow> (string \<times> string) list \<Rightarrow> (string \<times> string) list" where
  "setHeader nm v hs = filter (\<lambda>(n, w). \<not> same_name n nm) hs @ [(nm, v)]"


text \<open>
  A request to a backend: the target, the method and the URL of the request being proxied,
  and its headers. The proxy builds the outgoing request with the headers of the incoming
  one and then calls \<^verbatim>\<open>onProxyReq\<close> on it; nothing in this code removes a header. (The
  \<^verbatim>\<open>Authorization\<close> and \<^verbatim>\<open>Cookie\<close> headers travel the same way; the model keeps them
  in their parsed fields and does not list them.)
\<close>

record outbound_request =
  out_target :: string
  out_method :: string
  out_path :: string
  out_headers :: "(string \<times> string) list"

text \<open>The callback, from the headers of \<^verbatim>\<open>proxyReq\<close> before it to its headers after it.\<close>

definition onProxyReq :: "(string \<times> string) list \<Rightarrow> request \<Rightarrow> (string \<times> string) list" where
  "onProxyReq proxyReq req =
     (let withUser =
            (case user req of
               Some u \<Rightarrow> setHeader ''X-User-Roles'' (JSON_stringify (user_roles u))
                           (setHeader ''X-User-ID'' (user_id u) proxyReq)
             | None \<Rightarrow> proxyReq)
      in setHeader ''X-Request-ID'' (req_id req) withUser)"

text \<open>
  The surroundings of one request: the environment, the clock, the answers of the key
  client, the backends (\<open>None\<close>: no response arrives, the proxy library reports the
  error itself), the identifier that \<^verbatim>\<open>uuidv4()\<close> would draw, and the response of
  \<^verbatim>\<open>errorHandler\<close> to an error. The error handler is the module
  \<^verbatim>\<open>shared/middleware/error-handler.middleware\<close>, which is not among the sources: what
  it answers is a parameter.
\<close>

record ctx =
  ctx_env :: env
  ctx_now :: int
  ctx_client :: "string \<Rightarrow> string option"
  ctx_backend :: "outbound_request \<Rightarrow> response option"
  ctx_uuid :: string
  ctx_errorHandler :: "fault \<Rightarrow> response"

text \<open>
  The state of the gateway across requests: the counters of each limiter instance, and
  the log of the requests made to backends, oldest first.
\<close>

record gw_state =
  stores :: "limiter \<Rightarrow> string \<rightharpoonup> counter"
  outbound :: "outbound_request list"

text \<open>
  The end of a middleware chain: \<open>Passed\<close> when the last middleware called \<^verbatim>\<open>next()\<close>,
  \<open>Sent\<close> when a middleware answered, \<open>Upstream\<close> when the proxy relayed the response
  of the backend, \<open>ProxyFailed\<close> when no response came back, \<open>Raised\<close> when a middleware
  called \<^verbatim>\<open>next(err)\<close>.
\<close>

datatype outcome =
    Passed request
  | Sent response
  | Upstream response
  | ProxyFailed
  | Raised fault

fun of_step :: "request step \<Rightarrow> outcome" where
  "of_step (Next req) = Passed req"
| "of_step (Respond r) = Sent r"

fun run_stage :: "ctx \<Rightarrow> stage \<Rightarrow> request \<Rightarrow> gw_state \<Rightarrow> outcome \<times> gw_state" where
  "run_stage c (RateLimit l) req st =
     (case rateLimit (limiter_options_of (config (ctx_env c)) l) (ctx_now c) req (stores st l) of
        (r, store') \<Rightarrow> (of_step r, st\<lparr>stores := (stores st)(l := store')\<rparr>))"
| "run_stage c (Authenticate required) req st =
     (of_step (authenticate_gw required (config (ctx_env c)) (ctx_client c) (ctx_now c) req), st)"
| "run_stage c (SetTarget nm url) req st =
     (Passed (req\<lparr>targetService := Some (nm, url)\<rparr>), st)"
| "run_stage c (Proxy target) req st =
     (let out = \<lparr>out_target = target, out_method = req_method req, out_path = originalUrl req,
                 out_headers = onProxyReq (req_headers req) req\<rparr>;
          st' = st\<lparr>outbound := outbound st @ [out]\<rparr>
      in case ctx_backend c out of
           Some r \<Rightarrow> (Upstream r, st')
         | None \<Rightarrow> (ProxyFailed, st'))"
| "run_stage c (HasRole rs) req st = (of_step (hasRole rs req), st)"
| "run_stage c (HasPermission ps) req st = (of_step (hasPermission ps req), st)"

text \<open>Express runs the middleware of an array in order; a middleware that does not call
  \<^verbatim>\<open>next()\<close> ends the chain.\<close>

fun run_chain :: "ctx \<Rightarrow> stage list \<Rightarrow> request \<Rightarrow> gw_state \<Rightarrow> outcome \<times> gw_state" where
  "run_chain c [] req st = (Passed req, st)"
| "run_chain c (s # ss) req st =
     (case run_stage c s req st of
        (Passed req', st') \<Rightarrow> run_chain c ss req' st'
      | (other, st') \<Rightarrow> (other, st'))"

section \<open>The Express application\<close>

text \<open>
  Express matches a path against a pattern segment by segment, ignoring the case of the
  letters and one trailing slash; a segment of the pattern that starts with a colon is a
  named parameter and matches any segment that is not empty.
\<close>

fun split_slash :: "string \<Rightarrow> string list" where
  "split_slash [] = [[]]"
| "split_slash (c # cs) =
     (if c = CHR ''/'' then [] # split_slash cs
      else (case split_slash cs of
              [] \<Rightarrow> [[c]]
            | x # xs \<Rightarrow> (c # x) # xs))"

definition path_segments :: "string \<Rightarrow> string list" where
  "path_segments p =
     (let ss = split_slash p in if 1 < length ss \<and> last ss = [] then butlast ss else ss)"

fun seg_matches :: "string \<Rightarrow> string \<Rightarrow> bool" where
  "seg_matches [] s = (s = [])"
| "seg_matches (c # cs) s =
     (if c = CHR '':'' then s \<noteq> [] else map lower (c # cs) = map lower s)"

definition path_matches :: "string \<Rightarrow> string \<Rightarrow> bool" where
  "path_matches pat p = list_all2 seg_matches (split_slash pat) (path_segments p)"

text \<open>
  What is registered on the application, in the order of registration: a handler for a
  verb and a path (\<^verbatim>\<open>app.get(path, ...)\<close>), a middleware for every path
  (\<^verbatim>\<open>app.use(...)\<close> with no path or with \<^verbatim>\<open>'*'\<close>), or an error handler, which Express
  skips while no error is pending and which alone runs once one is.
\<close>

datatype endpoint =
    Helmet
  | Compression
  | JsonParser
  | UrlencodedParser
  | CookieParser
  | Cors
  | RequestId
  | CaptureResponseBody
  | HttpLogger
  | HealthCheck
  | NotFoundFallback
  | ErrorHandler
  | MetricsEndpoint
  | RouteChain "stage list"

datatype layer =
    Verb string string endpoint
  | UseAll endpoint
  | UseError endpoint

text \<open>A handler registered for GET also serves HEAD.\<close>

fun layer_matches :: "layer \<Rightarrow> request \<Rightarrow> bool" where
  "layer_matches (Verb m pat e) req =
     ((req_method req = m \<or> (m = ''GET'' \<and> req_method req = ''HEAD''))
      \<and> path_matches pat (req_path req))"
| "layer_matches (UseAll e) req = True"
| "layer_matches (UseError e) req = False"

text \<open>The set-up loop over the services and their routes.\<close>

definition setup_routes :: "env \<Rightarrow> layer list" where
  "setup_routes ev =
     concat (map (\<lambda>(serviceKey, svc).
                    map (\<lambda>r. Verb (route_method r) (svc_prefix svc @ route_path r)
                                   (RouteChain (route_chain serviceKey svc r)))
                        (svc_routes svc))
                 (routes ev))"

text \<open>The server module, top to bottom.\<close>

definition app :: "env \<Rightarrow> layer list" where
  "app ev =
     [UseAll Helmet,
      UseAll Compression,
      UseAll JsonParser,
      UseAll UrlencodedParser,
      UseAll CookieParser,
      UseAll Cors,
      UseAll RequestId,
      UseAll CaptureResponseBody,
      UseAll HttpLogger,
      Verb ''GET'' ''/health'' HealthCheck,
      UseAll NotFoundFallback,
      UseError ErrorHandler,
      Verb ''GET'' ''/metrics'' MetricsEndpoint]
     @ setup_routes ev"

text \<open>
  What each of them does with a request. The security headers, the compression, the
  cookie parser, the capture of the response body and the logger hand every request on.
  A body parser hands on a body of another kind and raises the error it finds in a body of
  its own kind. The CORS middleware, set up without \<^verbatim>\<open>preflightContinue\<close>, ends every
  OPTIONS request with status 204 and no content. \<^verbatim>\<open>requestId\<close> sets \<^verbatim>\<open>req.id\<close> to the
  \<^verbatim>\<open>x-request-id\<close> header or to a fresh identifier.
\<close>

fun run_endpoint :: "ctx \<Rightarrow> endpoint \<Rightarrow> request \<Rightarrow> gw_state \<Rightarrow> outcome \<times> gw_state" where
  "run_endpoint c Helmet req st = (Passed req, st)"
| "run_endpoint c Compression req st = (Passed req, st)"
| "run_endpoint c JsonParser req st =
     (case body_fault req of
        Some f \<Rightarrow> if payload_kind req = JsonPayload then (Raised f, st) else (Passed req, st)
      | None \<Rightarrow> (Passed req, st))"
| "run_endpoint c UrlencodedParser req st =
     (case body_fault req of
        Some f \<Rightarrow> if payload_kind req = FormPayload then (Raised f, st) else (Passed req, st)
      | None \<Rightarrow> (Passed req, st))"
| "run_endpoint c CookieParser req st = (Passed req, st)"
| "run_endpoint c Cors req st =
     (if map upper (req_method req) = ''OPTIONS''
        then (Sent \<lparr>status = 204, body = EmptyBody\<rparr>, st)
      else (Passed req, st))"
| "run_endpoint c RequestId req st =
     (Passed (req\<lparr>req_id := (case map_of (req_headers req) ''x-request-id'' of
                                  Some v \<Rightarrow> if falsy v then ctx_uuid c else v
                                | None \<Rightarrow> ctx_uuid c)\<rparr>), st)"
| "run_endpoint c CaptureResponseBody req st = (Passed req, st)"
| "run_endpoint c HttpLogger req st = (Passed req, st)"
| "run_endpoint c HealthCheck req st = (Sent \<lparr>status = OK, body = HealthBody\<rparr>, st)"
| "run_endpoint c NotFoundFallback req st =
     (Sent \<lparr>status = 404, body = NotFoundBody (originalUrl req)\<rparr>, st)"
| "run_endpoint c ErrorHandler req st = (Passed req, st)"
| "run_endpoint c MetricsEndpoint req st = (Sent \<lparr>status = OK, body = MetricsBody\<rparr>, st)"
| "run_endpoint c (RouteChain ss) req st = run_chain c ss req st"

text \<open>
  Once a middleware has raised an error, Express skips every layer but the error handlers:
  the first one answers. \<open>Raised\<close> at the end is an error that no handler registered
  here has taken.
\<close>

fun dispatch_error :: "ctx \<Rightarrow> layer list \<Rightarrow> fault \<Rightarrow> gw_state \<Rightarrow> outcome \<times> gw_state" where
  "dispatch_error c [] f st = (Raised f, st)"
| "dispatch_error c (UseError e # ls) f st = (Sent (ctx_errorHandler c f), st)"
| "dispatch_error c (Verb m pat e # ls) f st = dispatch_error c ls f st"
| "dispatch_error c (UseAll e # ls) f st = dispatch_error c ls f st"

text \<open>
  Express offers the request to the layers in the order of registration; the first layer
  that matches runs, and the next layers are tried only if it calls \<^verbatim>\<open>next()\<close>.
  \<open>Passed\<close> at the end is a request that nothing registered here has answered.
\<close>

fun dispatch :: "ctx \<Rightarrow> layer list \<Rightarrow> request \<Rightarrow> gw_state \<Rightarrow> outcome \<times> gw_state" where
  "dispatch c [] req st = (Passed req, st)"
| "dispatch c (Verb m pat e # ls) req st =
     (if layer_matches (Verb m pat e) req
        then (case run_endpoint c e req st of
                (Passed req', st') \<Rightarrow> dispatch c ls req' st'
              | (Raised f, st') \<Rightarrow> dispatch_error c ls f st'
              | (other, st') \<Rightarrow> (other, st'))
      else dispatch c ls req st)"
| "dispatch c (UseAll e # ls) req st =
     (case run_endpoint c e req st of
        (Passed req', st') \<Rightarrow> dispatch c ls req' st'
      | (Raised f, st') \<Rightarrow> dispatch_error c ls f st'
      | (other, st') \<Rightarrow> (other, st'))"
| "dispatch c (UseError e # ls) req st = dispatch c ls req st"

definition gateway :: "ctx \<Rightarrow> request \<Rightarrow> gw_state \<Rightarrow> outcome \<times> gw_state" where
  "gateway c req st = dispatch c (app (ctx_env c)) req st"

section \<open>Sample data\<close>

text \<open>
  An environment with no variable set, the key that the authentication service publishes
  under the key id \<^verbatim>\<open>'1'\<close>, a token signed with it for the default issuer and audience
  that expires at second 60, and a key cache filled at millisecond 1000.
\<close>

definition sample_env :: env where
  "sample_env =
     \<lparr>TOKEN_ISSUER = None, TOKEN_AUDIENCE = None, AUTH_SERVICE_URL = None,
      PROFILE_SERVICE_URL = None, PROJECTS_SERVICE_URL = None, BLOG_SERVICE_URL = None,
      CONTACT_SERVICE_URL = None, ANALYTICS_SERVICE_URL = None\<rparr>"

definition sample_key :: jwk where
  "sample_key =
     \<lparr>jwk_kid = ''1'', jwk_kty = ''RSA'', jwk_n = ''MIIBIjANBg'', jwk_e = ''AQAB'',
      jwk_alg = ''RS256''\<rparr>"

definition sample_claims :: claims where
  "sample_claims =
     \<lparr>sub = ''user-42'', email = ''ada@example.org'', name = None,
      roles = Some [''admin'', ''editor''], permissions = Some [''read''],
      iss = ''portfolio-api'', aud = ''portfolio-client'', exp = 60\<rparr>"

definition sample_jwt :: jwt where
  "sample_jwt =
     \<lparr>header = \<lparr>alg = ''RS256'', kid = Some ''1''\<rparr>, payload = sample_claims,
      signer = pem sample_key\<rparr>"

definition sample_cache :: jwks_state where
  "sample_cache = \<lparr>jwksCache = Some [sample_key], jwksCacheTime = Some 1000, fetches = 0\<rparr>"

definition sample_request :: request where
  "sample_request =
     \<lparr>req_method = ''GET'', req_path = ''/api/contact/messages'', req_search = '''',
      authorization = Some (Bearer (Compact sample_jwt)), cookies = [], query_token = None,
      req_headers = [(''accept'', ''application/json'')], payload_kind = NoPayload,
      body_fault = None, req_id = ''req-7'', req_ip = ''203.0.113.9'', user = None,
      targetService = None\<rparr>"

text \<open>The same key and token, but with the empty string for the key id.\<close>

definition blank_key :: jwk where
  "blank_key = sample_key\<lparr>jwk_kid := ''''\<rparr>"

definition blank_jwt :: jwt where
  "blank_jwt =
     \<lparr>header = \<lparr>alg = ''RS256'', kid = Some ''''\<rparr>, payload = sample_claims,
      signer = pem blank_key\<rparr>"

definition blank_cache :: jwks_state where
  "blank_cache = \<lparr>jwksCache = Some [blank_key], jwksCacheTime = Some 1000, fetches = 0\<rparr>"

text \<open>
  The surroundings of the sample request: the key client knows the key \<^verbatim>\<open>'1'\<close>, every
  backend answers 201, the error handler answers the status of the error, no request has
  been counted yet and none has been sent to a backend.
\<close>

definition sample_ctx :: ctx where
  "sample_ctx =
     \<lparr>ctx_env = sample_env, ctx_now = 5000,
      ctx_client = (\<lambda>k. if k = ''1'' then Some (pem sample_key) else None),
      ctx_backend = (\<lambda>out. Some \<lparr>status = 201, body = UpstreamBody ''created''\<rparr>),
      ctx_uuid = ''req-7'',
      ctx_errorHandler = (\<lambda>f. case f of
                            Fault code kind \<Rightarrow> \<lparr>status = code, body = FormatError ''Error'' kind\<rparr>)\<rparr>"

definition sample_state :: gw_state where
  "sample_state = \<lparr>stores = (\<lambda>l. Map.empty), outbound = []\<rparr>"

definition contact_service :: service where
  "contact_service =
     \<lparr>svc_prefix = ''/api/contact'', svc_target = ''http://contact-service:3005'',
      svc_routes =
        [rt ''/messages'' ''POST'' False,
         rt ''/messages'' ''GET'' True,
         rt ''/messages/:id'' ''GET'' True,
         rt ''/messages/:id'' ''PUT'' True,
         rt ''/messages/:id'' ''DELETE'' True]\<rparr>"

definition health_request :: request where
  "health_request = sample_request\<lparr>req_path := ''/health'', authorization := None\<rparr>"

text \<open>
  Three requests to a path that no route has: a preflight, a POST whose JSON body does not
  parse, and a plain GET. And a request to the public route of the contact service that
  bears no token but the two identity headers, written by the client.
\<close>

definition options_request :: request where
  "options_request =
     sample_request\<lparr>req_method := ''OPTIONS'', req_path := ''/api/nothing'',
                      authorization := None\<rparr>"

definition malformed_request :: request where
  "malformed_request =
     sample_request\<lparr>req_method := ''POST'', req_path := ''/api/nothing'', authorization := None,
                      payload_kind := JsonPayload,
                      body_fault := Some (Fault 400 ''entity.parse.failed'')\<rparr>"

definition nowhere_request :: request where
  "nowhere_request =
     sample_request\<lparr>req_path := ''/api/nothing'', req_search := ''?page=2'',
                      req_headers := [(''x-request-id'', ''trace-1'')]\<rparr>"



section \<open>Vocabulary of the properties\<close>

text \<open>The stages that check a role or a permission.\<close>

fun is_authorize :: "stage \<Rightarrow> bool" where
  "is_authorize (HasRole rs) = True"
| "is_authorize (HasPermission ps) = True"
| "is_authorize s = False"

text \<open>A request matches a rule of the route table when it matches the layer registered for it.\<close>

definition matches_route_rule :: "env \<Rightarrow> request \<Rightarrow> bool" where
  "matches_route_rule ev req = list_ex (\<lambda>l. layer_matches l req) (setup_routes ev)"

text \<open>The limiter that the set-up loop chooses for a route of a service.\<close>

definition route_limiter :: "service \<Rightarrow> route \<Rightarrow> limiter" where
  "route_limiter svc r = choose_limiter r (svc_prefix svc @ route_path r) (route_auth r)"









text \<open>A request to the public route of the contact service with a bearer string that is no token.\<close>

definition garbage_request :: request where
  "garbage_request =
     sample_request\<lparr>req_method := ''POST'', authorization := Some (Bearer (Opaque ''not-a-jwt''))\<rparr>"

text \<open>The body parsers find no error in the body of the request.\<close>

definition body_parses :: "request \<Rightarrow> bool" where
  "body_parses req =
     (body_fault req = None \<or> (payload_kind req \<noteq> JsonPayload \<and> payload_kind req \<noteq> FormPayload))"

text \<open>The request is a preflight for the CORS middleware.\<close>

definition is_preflight :: "request \<Rightarrow> bool" where
  "is_preflight req = (map upper (req_method req) = ''OPTIONS'')"

text \<open>The request is one that the health check is registered for.\<close>

definition is_health_check :: "request \<Rightarrow> bool" where
  "is_health_check req = layer_matches (Verb ''GET'' ''/health'' HealthCheck) req"

section \<open>Properties of key resolution and token verification\<close>

lemma find_distinct_kid:
  assumes "key \<in> set ks" and "distinct (map jwk_kid ks)"
  shows "find (\<lambda>k. jwk_kid k = jwk_kid key) ks = Some key"
  using assms
proof (induction ks)
  case Nil
  then show ?case by simp
next
  case (Cons k ks)
  show ?case
  proof (cases "k = key")
    case True
    then show ?thesis by simp
  next
    case False
    with Cons.prems have mem: "key \<in> set ks" by simp
    from Cons.prems have "jwk_kid k \<notin> jwk_kid ` set ks" by simp
    with mem have "jwk_kid k \<noteq> jwk_kid key" by force
    with Cons.IH mem Cons.prems show ?thesis by simp
  qed
qed

lemma find_absent_kid:
  "k \<notin> jwk_kid ` set ks \<Longrightarrow> find (\<lambda>key. jwk_kid key = k) ks = None"
  by (induction ks) auto

lemma fetchJwks_fetches:
  "fetches (snd (fetchJwks now net st)) =
     fetches st + (case cache_hit now st of None \<Rightarrow> 1 | Some c \<Rightarrow> 0)"
  by (simp add: fetchJwks_def split: option.splits)

lemma getPublicKey_state:
  "snd (getPublicKey k now net st) = snd (fetchJwks now net st)"
  by (simp add: getPublicKey_def split: prod.splits sum.splits option.splits)

lemma getPublicKey_cached:
  assumes "cache_hit now st = Some ks" and "key \<in> set ks" and "distinct (map jwk_kid ks)"
  shows "getPublicKey (jwk_kid key) now net st = (Inr (pem key), st)"
  using assms by (simp add: getPublicKey_def fetchJwks_def find_distinct_kid)

lemma jwt_verify_accepts:
  assumes "alg (header j) \<in> set (algorithms opts)" and "signer j = key"
    and "now div 1000 < exp (payload j)"
    and "aud (payload j) = audience opts" and "iss (payload j) = issuer opts"
  shows "jwt_verify now (Compact j) key opts = Inr (payload j)"
  using assms by (simp add: jwt_verify_def)

lemma verifyToken_accepts:
  assumes cache: "cache_hit now st = Some ks"
    and key: "key \<in> set ks" "distinct (map jwk_kid ks)"
    and kid: "kid (header j) = Some (jwk_kid key)" "jwk_kid key \<noteq> ''''"
    and sig: "signer j = pem key"
    and alg: "alg (header j) = ''RS256''"
    and iss: "iss (payload j) = or_default (TOKEN_ISSUER ev) ''portfolio-api''"
    and aud: "aud (payload j) = or_default (TOKEN_AUDIENCE ev) ''portfolio-client''"
    and exp: "now div 1000 < exp (payload j)"
  shows "verifyToken ev now net (Compact j) st = (Inr (payload j), st)"
proof -
  have pk: "getPublicKey (jwk_kid key) now net st = (Inr (pem key), st)"
    using cache key by (rule getPublicKey_cached)
  have ok: "jwt_verify now (Compact j) (pem key)
              \<lparr>algorithms = [''RS256''],
               issuer = or_default (TOKEN_ISSUER ev) ''portfolio-api'',
               audience = or_default (TOKEN_AUDIENCE ev) ''portfolio-client''\<rparr> = Inr (payload j)"
    using sig alg iss aud exp by (simp add: jwt_verify_accepts)
  show ?thesis
    using kid pk ok by (simp add: verifyToken_def falsy_def)
qed

lemma verifyToken_gw_accepts:
  assumes kid: "kid (header j) = Some k" "k \<noteq> ''''"
    and key: "client k = Some key" "signer j = key"
    and alg: "alg (header j) \<in> set (auth_algorithms (auth cfg))"
    and iss: "iss (payload j) = auth_issuer (auth cfg)"
    and aud: "aud (payload j) = auth_audience (auth cfg)"
    and exp: "now div 1000 < exp (payload j)"
  shows "verifyToken_gw cfg client now (Compact j) = Inr (payload j)"
proof -
  have "jwt_verify now (Compact j) key
          \<lparr>algorithms = auth_algorithms (auth cfg), issuer = auth_issuer (auth cfg),
           audience = auth_audience (auth cfg)\<rparr> = Inr (payload j)"
    using key alg iss aud exp by (simp add: jwt_verify_accepts)
  then show ?thesis
    using kid key by (simp add: verifyToken_gw_def getSigningKey_def falsy_def)
qed

text \<open>
  C1, as the code has it. Take a token whose key id is not the empty string and names a
  key of the cached key set, the cache being within its time to live and its key ids
  distinct; let the token be signed by that key with RS256, carry the configured issuer
  and audience, and expire in the future. Then \<^verbatim>\<open>verifyToken\<close> returns the claims of the
  token without touching the cache, and \<^verbatim>\<open>authenticate\<close> attaches an identity whose id is
  the \<^verbatim>\<open>sub\<close> claim and whose roles are the \<^verbatim>\<open>roles\<close> claim (the empty list when the
  token has none).
\<close>

theorem verified_token_gives_identity:
  assumes cache: "cache_hit now st = Some ks"
    and key: "key \<in> set ks" "distinct (map jwk_kid ks)"
    and kid: "kid (header j) = Some (jwk_kid key)" "jwk_kid key \<noteq> ''''"
    and sig: "signer j = pem key"
    and alg: "alg (header j) = ''RS256''"
    and iss: "iss (payload j) = or_default (TOKEN_ISSUER ev) ''portfolio-api''"
    and aud: "aud (payload j) = or_default (TOKEN_AUDIENCE ev) ''portfolio-client''"
    and exp: "now div 1000 < exp (payload j)"
    and tok: "extractToken req = Some (Compact j)"
  shows "verifyToken ev now net (Compact j) st = (Inr (payload j), st)
       \<and> authenticate required ev now net req st
           = (Next (req\<lparr>user := Some \<lparr>user_id = sub (payload j),
                                         user_email = email (payload j),
                                         user_name = Some (name_or_email (payload j)),
                                         user_roles = or_empty (roles (payload j)),
                                         user_permissions = or_empty (permissions (payload j))\<rparr>\<rparr>),
              st)"
proof -
  have v: "verifyToken ev now net (Compact j) st = (Inr (payload j), st)"
    using cache key kid sig alg iss aud exp by (rule verifyToken_accepts)
  then show ?thesis
    using tok by (simp add: authenticate_def del: name_or_email.simps)
qed

theorem verified_token_gives_identity_witness:
  "verifyToken sample_env 5000 None (Compact sample_jwt) sample_cache
     = (Inr sample_claims, sample_cache)
   \<and> authenticate True sample_env 5000 None sample_request sample_cache
     = (Next (sample_request\<lparr>user := Some \<lparr>user_id = ''user-42'',
                                              user_email = ''ada@example.org'',
                                              user_name = Some ''ada@example.org'',
                                              user_roles = [''admin'', ''editor''],
                                              user_permissions = [''read'']\<rparr>\<rparr>),
        sample_cache)"
proof -
  have cache: "cache_hit 5000 sample_cache = Some [sample_key]"
    by (simp add: sample_cache_def JWKS_CACHE_TTL_def)
  have key: "sample_key \<in> set [sample_key]" "distinct (map jwk_kid [sample_key])"
    by simp_all
  have kid: "kid (header sample_jwt) = Some (jwk_kid sample_key)" "jwk_kid sample_key \<noteq> ''''"
    by (simp_all add: sample_jwt_def sample_key_def)
  have sig: "signer sample_jwt = pem sample_key" and alg: "alg (header sample_jwt) = ''RS256''"
    by (simp_all add: sample_jwt_def)
  have iss: "iss (payload sample_jwt) = or_default (TOKEN_ISSUER sample_env) ''portfolio-api''"
    and aud: "aud (payload sample_jwt) = or_default (TOKEN_AUDIENCE sample_env) ''portfolio-client''"
    and exp: "(5000::int) div 1000 < exp (payload sample_jwt)"
    by (simp_all add: sample_jwt_def sample_claims_def sample_env_def)
  have tok: "extractToken sample_request = Some (Compact sample_jwt)"
    by (simp add: extractToken_def sample_request_def)
  show ?thesis
    using verified_token_gives_identity [OF cache key kid sig alg iss aud exp tok, of None True]
    by (simp add: sample_jwt_def sample_claims_def)
qed

text \<open>
  C1 as it is stated fails for the empty key id: the key is in the cache and every claim
  of the token is in order, yet the guard on the key id rejects the token before any key is
  looked up.
\<close>

theorem empty_key_id_counterexample:
  "cache_hit 5000 blank_cache = Some [blank_key]
   \<and> kid (header blank_jwt) = Some (jwk_kid blank_key)
   \<and> signer blank_jwt = pem blank_key
   \<and> alg (header blank_jwt) = ''RS256''
   \<and> iss (payload blank_jwt) = or_default (TOKEN_ISSUER sample_env) ''portfolio-api''
   \<and> aud (payload blank_jwt) = or_default (TOKEN_AUDIENCE sample_env) ''portfolio-client''
   \<and> (5000::int) div 1000 < exp (payload blank_jwt)
   \<and> verifyToken sample_env 5000 None (Compact blank_jwt) blank_cache
       = (Inl (Error ''Invalid token''), blank_cache)"
  by (simp add: blank_cache_def blank_jwt_def blank_key_def sample_claims_def sample_env_def
                JWKS_CACHE_TTL_def verifyToken_def falsy_def)

text \<open>
  C2, as the code has it. The lookup consults one key set: the cached one while the cache
  is within its time to live, otherwise the one fetched at that moment. When the key id is
  in no key set that the lookup can consult, the lookup fails with the module's error, and
  it has fetched exactly once if the cache was empty or expired and not at all if the
  cache was current. A key id that is missing from a current cache forces no refresh.
\<close>

theorem key_lookup_fetch_policy:
  assumes "\<forall>ks. cache_hit now st = Some ks \<or> (cache_hit now st = None \<and> net = Some ks)
                 \<longrightarrow> k \<notin> jwk_kid ` set ks"
  shows "fst (getPublicKey k now net st)
           = Inl (Error ''Unable to retrieve public key for token verification'')
       \<and> fetches (snd (getPublicKey k now net st))
           = fetches st + (case cache_hit now st of None \<Rightarrow> 1 | Some c \<Rightarrow> 0)"
proof -
  have failing: "fst (getPublicKey k now net st)
           = Inl (Error ''Unable to retrieve public key for token verification'')"
  proof (cases "cache_hit now st")
    case None
    show ?thesis
    proof (cases net)
      case no_answer: None
      with None show ?thesis by (simp add: getPublicKey_def fetchJwks_def)
    next
      case (Some ks)
      with None assms have "find (\<lambda>key. jwk_kid key = k) ks = None"
        by (simp add: find_absent_kid)
      with None Some show ?thesis by (simp add: getPublicKey_def fetchJwks_def)
    qed
  next
    case (Some ks)
    with assms have "find (\<lambda>key. jwk_kid key = k) ks = None"
      by (simp add: find_absent_kid)
    with Some show ?thesis by (simp add: getPublicKey_def fetchJwks_def)
  qed
  have counted: "fetches (snd (getPublicKey k now net st))
           = fetches st + (case cache_hit now st of None \<Rightarrow> 1 | Some c \<Rightarrow> 0)"
    by (simp only: getPublicKey_state fetchJwks_fetches)
  from failing counted show ?thesis by simp
qed

theorem key_lookup_fetch_policy_witness:
  "fst (getPublicKey ''2'' 3601001 (Some [sample_key]) sample_cache)
     = Inl (Error ''Unable to retrieve public key for token verification'')
   \<and> fetches (snd (getPublicKey ''2'' 3601001 (Some [sample_key]) sample_cache)) = 1"
proof -
  have stale: "cache_hit 3601001 sample_cache = None"
    by (simp add: sample_cache_def JWKS_CACHE_TTL_def)
  have absent: "\<forall>ks. cache_hit 3601001 sample_cache = Some ks
                     \<or> (cache_hit 3601001 sample_cache = None \<and> Some [sample_key] = Some ks)
                   \<longrightarrow> ''2'' \<notin> jwk_kid ` set ks"
    using stale by (auto simp: sample_key_def)
  show ?thesis
    using key_lookup_fetch_policy [OF absent] stale by (simp add: sample_cache_def)
qed

text \<open>
  C2 as it is stated fails: with a current cache that lacks the key id, the lookup fails
  at once and no request has gone to the key endpoint.
\<close>

theorem cache_miss_without_refresh_counterexample:
  "cache_hit 5000 sample_cache = Some [sample_key]
   \<and> ''2'' \<notin> jwk_kid ` set [sample_key]
   \<and> getPublicKey ''2'' 5000 (Some [sample_key]) sample_cache
       = (Inl (Error ''Unable to retrieve public key for token verification''), sample_cache)
   \<and> fetches sample_cache = 0"
  by (simp add: sample_cache_def sample_key_def JWKS_CACHE_TTL_def getPublicKey_def fetchJwks_def)

section \<open>Properties of the authorization guard\<close>

text \<open>
  C8. For every identity and every requirement, given as an array or as a single string,
  the permission check lets the request through exactly when the identity's permissions
  include every required permission, and answers 403 otherwise; the role check lets it
  through exactly when the identity holds at least one of the allowed roles, and answers
  403 otherwise.
\<close>

theorem guard_superset_and_any_role:
  assumes "user req = Some u"
  shows "hasPermission (Many ps) req =
           (if set ps \<subseteq> set (user_permissions u) then Next req
            else Respond \<lparr>status = 403,
                          body = FormatError ''Access denied'' ''Insufficient permissions''\<rparr>)
       \<and> hasPermission (One p) req =
           (if p \<in> set (user_permissions u) then Next req
            else Respond \<lparr>status = 403,
                          body = FormatError ''Access denied'' ''Insufficient permissions''\<rparr>)
       \<and> hasRole (Many rs) req =
           (if set rs \<inter> set (user_roles u) \<noteq> {} then Next req
            else Respond \<lparr>status = 403,
                          body = FormatError ''Access denied'' ''Insufficient permissions''\<rparr>)
       \<and> hasRole (One r) req =
           (if r \<in> set (user_roles u) then Next req
            else Respond \<lparr>status = 403,
                          body = FormatError ''Access denied'' ''Insufficient permissions''\<rparr>)"
  using assms
  by (auto simp: hasPermission_def hasRole_def Let_def FORBIDDEN_def list_all_iff list_ex_iff)

theorem guard_superset_and_any_role_witness:
  "hasPermission (Many [''read'', ''write''])
       (sample_request\<lparr>user := Some \<lparr>user_id = ''user-42'', user_email = ''ada@example.org'',
          user_name = None, user_roles = [''editor''], user_permissions = [''read'']\<rparr>\<rparr>)
     = Respond \<lparr>status = 403, body = FormatError ''Access denied'' ''Insufficient permissions''\<rparr>
   \<and> hasPermission (One ''read'')
       (sample_request\<lparr>user := Some \<lparr>user_id = ''user-42'', user_email = ''ada@example.org'',
          user_name = None, user_roles = [''editor''], user_permissions = [''read'']\<rparr>\<rparr>)
     = Next (sample_request\<lparr>user := Some \<lparr>user_id = ''user-42'', user_email = ''ada@example.org'',
          user_name = None, user_roles = [''editor''], user_permissions = [''read'']\<rparr>\<rparr>)
   \<and> hasRole (Many [''admin'', ''editor''])
       (sample_request\<lparr>user := Some \<lparr>user_id = ''user-42'', user_email = ''ada@example.org'',
          user_name = None, user_roles = [''editor''], user_permissions = [''read'']\<rparr>\<rparr>)
     = Next (sample_request\<lparr>user := Some \<lparr>user_id = ''user-42'', user_email = ''ada@example.org'',
          user_name = None, user_roles = [''editor''], user_permissions = [''read'']\<rparr>\<rparr>)
   \<and> hasRole (One ''admin'')
       (sample_request\<lparr>user := Some \<lparr>user_id = ''user-42'', user_email = ''ada@example.org'',
          user_name = None, user_roles = [''editor''], user_permissions = [''read'']\<rparr>\<rparr>)
     = Respond \<lparr>status = 403, body = FormatError ''Access denied'' ''Insufficient permissions''\<rparr>"
proof -
  have u: "user (sample_request\<lparr>user := Some \<lparr>user_id = ''user-42'', user_email = ''ada@example.org'',
          user_name = None, user_roles = [''editor''], user_permissions = [''read'']\<rparr>\<rparr>)
        = Some \<lparr>user_id = ''user-42'', user_email = ''ada@example.org'',
          user_name = None, user_roles = [''editor''], user_permissions = [''read'']\<rparr>"
    by simp
  show ?thesis
    using guard_superset_and_any_role [OF u, of "[''read'', ''write'']" "''read''"
                                          "[''admin'', ''editor'']" "''admin''"]
    by simp
qed

section \<open>Properties of the set-up loop and of the application\<close>

lemma route_chain_shape:
  "route_chain serviceKey svc r =
     [RateLimit (choose_limiter r (svc_prefix svc @ route_path r) (route_auth r)),
      Authenticate (route_auth r),
      SetTarget serviceKey (svc_target svc),
      Proxy (svc_target svc)]"
  by (simp add: route_chain_def Let_def)

lemma setup_routes_shape:
  assumes "l \<in> set (setup_routes ev)"
  shows "\<exists>serviceKey svc r. l = Verb (route_method r) (svc_prefix svc @ route_path r)
                                   (RouteChain (route_chain serviceKey svc r))"
  using assms by (auto simp: setup_routes_def)

lemma contact_messages_registered:
  "Verb ''GET'' ''/api/contact/messages''
        (RouteChain (route_chain ''contact'' contact_service (rt ''/messages'' ''GET'' True)))
     \<in> set (setup_routes sample_env)"
  by (simp add: setup_routes_def routes_def rt_def route_chain_def choose_limiter_def
                sample_env_def contact_service_def startsWith_def)

text \<open>
  C4, as the code has it. The chain that the loop registers for a route is, in this order,
  the rate limiter chosen for the route, \<^verbatim>\<open>authenticate\<close> with the route's flag, the
  middleware that records the target, and the proxy to the target; no stage of it checks a
  role or a permission, and every layer that the loop registers has this shape.
\<close>

theorem route_chain_stages:
  "route_chain serviceKey svc r =
     [RateLimit (choose_limiter r (svc_prefix svc @ route_path r) (route_auth r)),
      Authenticate (route_auth r),
      SetTarget serviceKey (svc_target svc),
      Proxy (svc_target svc)]
   \<and> \<not> list_ex is_authorize (route_chain serviceKey svc r)
   \<and> (\<forall>l \<in> set (setup_routes ev). \<exists>m pat lim b nm tgt.
         l = Verb m pat (RouteChain [RateLimit lim, Authenticate b, SetTarget nm tgt, Proxy tgt]))"
proof -
  have none: "\<not> list_ex is_authorize (route_chain serviceKey svc r)"
    by (simp add: route_chain_shape)
  have every: "\<exists>m pat lim b nm tgt.
         l = Verb m pat (RouteChain [RateLimit lim, Authenticate b, SetTarget nm tgt, Proxy tgt])"
    if "l \<in> set (setup_routes ev)" for l
    using setup_routes_shape [OF that] by (auto simp: route_chain_shape)
  from route_chain_shape none every show ?thesis by blast
qed

theorem route_chain_stages_witness:
  "route_chain ''contact'' contact_service (rt ''/messages'' ''GET'' True) =
     [RateLimit Standard, Authenticate True,
      SetTarget ''contact'' ''http://contact-service:3005'',
      Proxy ''http://contact-service:3005'']
   \<and> (\<exists>m pat lim b nm tgt.
         Verb ''GET'' ''/api/contact/messages''
           (RouteChain (route_chain ''contact'' contact_service (rt ''/messages'' ''GET'' True)))
         = Verb m pat (RouteChain [RateLimit lim, Authenticate b, SetTarget nm tgt, Proxy tgt]))"
proof -
  note facts = route_chain_stages [of "''contact''" contact_service "rt ''/messages'' ''GET'' True"
                                      sample_env]
  from facts have first: "route_chain ''contact'' contact_service (rt ''/messages'' ''GET'' True) =
     [RateLimit Standard, Authenticate True,
      SetTarget ''contact'' ''http://contact-service:3005'',
      Proxy ''http://contact-service:3005'']"
    by (simp add: choose_limiter_def contact_service_def rt_def startsWith_def)
  from facts contact_messages_registered have "\<exists>m pat lim b nm tgt.
         Verb ''GET'' ''/api/contact/messages''
           (RouteChain (route_chain ''contact'' contact_service (rt ''/messages'' ''GET'' True)))
         = Verb m pat (RouteChain [RateLimit lim, Authenticate b, SetTarget nm tgt, Proxy tgt])"
    by blast
  with first show ?thesis by blast
qed

text \<open>
  C4 as it is stated fails: the chain registered for the listing of the contact messages,
  a route that requires authentication, has four stages and none of them is an
  authorization stage.
\<close>

theorem no_authorize_stage_counterexample:
  "Verb ''GET'' ''/api/contact/messages''
        (RouteChain (route_chain ''contact'' contact_service (rt ''/messages'' ''GET'' True)))
     \<in> set (setup_routes sample_env)
   \<and> route_chain ''contact'' contact_service (rt ''/messages'' ''GET'' True) =
       [RateLimit Standard, Authenticate True,
        SetTarget ''contact'' ''http://contact-service:3005'',
        Proxy ''http://contact-service:3005'']
   \<and> \<not> list_ex is_authorize
          (route_chain ''contact'' contact_service (rt ''/messages'' ''GET'' True))"
  using contact_messages_registered
  by (simp add: route_chain_shape choose_limiter_def contact_service_def rt_def startsWith_def)

lemma gateway_answers:
  "gateway c req st =
     ((case body_fault req of
         Some f \<Rightarrow>
           if payload_kind req = JsonPayload \<or> payload_kind req = FormPayload
             then Sent (ctx_errorHandler c f)
           else if is_preflight req then Sent \<lparr>status = 204, body = EmptyBody\<rparr>
           else if is_health_check req then Sent \<lparr>status = 200, body = HealthBody\<rparr>
           else Sent \<lparr>status = 404, body = NotFoundBody (originalUrl req)\<rparr>
       | None \<Rightarrow>
           if is_preflight req then Sent \<lparr>status = 204, body = EmptyBody\<rparr>
           else if is_health_check req then Sent \<lparr>status = 200, body = HealthBody\<rparr>
           else Sent \<lparr>status = 404, body = NotFoundBody (originalUrl req)\<rparr>),
      st)"
  by (simp add: gateway_def app_def is_preflight_def is_health_check_def originalUrl_def OK_def
           split: option.splits)

lemma gateway_never_forwards: "outbound (snd (gateway c req st)) = outbound st"
  by (simp add: gateway_answers)

text \<open>
  C7, as the code has it. A request that matches no rule of the route table is answered
  404 by the fallback handler, with the URL of the request in the body, unless it is the
  health check, a preflight (which the CORS middleware ends with 204) or a request whose
  body a parser rejects (which the error handler answers); and the state of the gateway is
  unchanged: no request has gone to a backend.
\<close>

theorem unmatched_request_not_found:
  assumes "\<not> matches_route_rule (ctx_env c) req"
    and "\<not> is_health_check req"
    and "\<not> is_preflight req"
    and "body_parses req"
  shows "gateway c req st = (Sent \<lparr>status = 404, body = NotFoundBody (originalUrl req)\<rparr>, st)
       \<and> outbound (snd (gateway c req st)) = outbound st"
  using assms(2,3,4) by (auto simp: gateway_answers body_parses_def split: option.splits)

theorem unmatched_request_not_found_witness:
  "fst (gateway sample_ctx nowhere_request sample_state)
     = Sent \<lparr>status = 404, body = NotFoundBody ''/api/nothing?page=2''\<rparr>
   \<and> outbound (snd (gateway sample_ctx nowhere_request sample_state)) = []"
proof -
  have unmatched: "\<not> matches_route_rule (ctx_env sample_ctx) nowhere_request"
    by code_simp
  have not_health: "\<not> is_health_check nowhere_request"
    by code_simp
  have not_preflight: "\<not> is_preflight nowhere_request"
    by code_simp
  have parses: "body_parses nowhere_request"
    by code_simp
  have url: "originalUrl nowhere_request = ''/api/nothing?page=2''"
    by code_simp
  show ?thesis
    using unmatched_request_not_found [OF unmatched not_health not_preflight parses, of sample_state]
    by (simp add: url sample_state_def)
qed

text \<open>
  C7 as it is stated fails for three requests that match no rule of the route table: the
  health check is answered 200, a preflight 204, and a request with a body that does not
  parse gets the answer of the error handler.
\<close>

theorem unmatched_not_404_counterexample:
  "\<not> matches_route_rule sample_env health_request
   \<and> fst (gateway sample_ctx health_request sample_state)
       = Sent \<lparr>status = 200, body = HealthBody\<rparr>
   \<and> \<not> matches_route_rule sample_env options_request
   \<and> fst (gateway sample_ctx options_request sample_state)
       = Sent \<lparr>status = 204, body = EmptyBody\<rparr>
   \<and> \<not> matches_route_rule sample_env malformed_request
   \<and> fst (gateway sample_ctx malformed_request sample_state)
       = Sent \<lparr>status = 400, body = FormatError ''Error'' ''entity.parse.failed''\<rparr>"
  by code_simp

lemma sample_token_verifies:
  "verifyToken_gw (config sample_env) (ctx_client sample_ctx) 5000 (Compact sample_jwt)
     = Inr sample_claims"
  by code_simp

lemma sample_chain_alone_forwards:
  "fst (run_chain sample_ctx
          (route_chain ''contact'' contact_service (rt ''/messages'' ''GET'' True))
          sample_request sample_state)
     = Upstream \<lparr>status = 201, body = UpstreamBody ''created''\<rparr>
   \<and> outbound (snd (run_chain sample_ctx
          (route_chain ''contact'' contact_service (rt ''/messages'' ''GET'' True))
          sample_request sample_state))
     = [\<lparr>out_target = ''http://contact-service:3005'', out_method = ''GET'',
         out_path = ''/api/contact/messages'',
         out_headers = [(''accept'', ''application/json''),
                        (''X-User-ID'', ''user-42''),
                        (''X-User-Roles'', JSON_stringify [''admin'', ''editor'']),
                        (''X-Request-ID'', ''req-7'')]\<rparr>]"
  by code_simp

text \<open>
  C6 at its failing input. The request is a GET of the contact messages, a registered
  route, with a bearer token signed with key id \<^verbatim>\<open>'1'\<close> for the configured audience and
  issuer that has not expired, and the token verifies. The fallback handler, registered
  before the routes, answers it 404, and nothing is sent to the backend.
\<close>

theorem registered_route_answered_by_fallback:
  "layer_matches
      (Verb ''GET'' ''/api/contact/messages''
         (RouteChain (route_chain ''contact'' contact_service (rt ''/messages'' ''GET'' True))))
      sample_request
   \<and> verifyToken_gw (config sample_env) (ctx_client sample_ctx) (ctx_now sample_ctx)
        (Compact sample_jwt) = Inr sample_claims
   \<and> fst (gateway sample_ctx sample_request sample_state)
       = Sent \<lparr>status = 404, body = NotFoundBody ''/api/contact/messages''\<rparr>
   \<and> outbound (snd (gateway sample_ctx sample_request sample_state)) = []"
  by code_simp

lemma public_contact_route_registered:
  "Verb ''POST'' ''/api/contact/messages''
        (RouteChain (route_chain ''contact'' contact_service (rt ''/messages'' ''POST'' False)))
     \<in> set (setup_routes sample_env)"
  by (simp add: setup_routes_def routes_def rt_def route_chain_def choose_limiter_def
                sample_env_def contact_service_def startsWith_def)

text \<open>
  C10 at its failing input. The request is a POST to the contact messages, a registered
  route that does not require authentication, with a bearer string that is no token, so
  that its verification fails. The fallback handler, registered before the routes, answers
  it 404: \<^verbatim>\<open>authenticate(false)\<close> never sees the request and nothing is sent to the
  backend.
\<close>

theorem optional_auth_route_answered_by_fallback:
  "\<not> route_auth (rt ''/messages'' ''POST'' False)
   \<and> layer_matches
        (Verb ''POST'' ''/api/contact/messages''
           (RouteChain (route_chain ''contact'' contact_service (rt ''/messages'' ''POST'' False))))
        garbage_request
   \<and> extractToken_gw (config sample_env) garbage_request = Some (Opaque ''not-a-jwt'')
   \<and> verifyToken_gw (config sample_env) (ctx_client sample_ctx) (ctx_now sample_ctx)
        (Opaque ''not-a-jwt'') = Inl (Error ''Invalid token format'')
   \<and> fst (gateway sample_ctx garbage_request sample_state)
       = Sent \<lparr>status = 404, body = NotFoundBody ''/api/contact/messages''\<rparr>
   \<and> outbound (snd (gateway sample_ctx garbage_request sample_state)) = []"
  by code_simp

section \<open>Properties of the middleware chain\<close>

lemma run_stage_keeps_outbound:
  assumes "fst (run_stage c s req st) = Passed req' \<or> fst (run_stage c s req st) = Sent r"
  shows "outbound (snd (run_stage c s req st)) = outbound st"
  using assms by (cases s) (auto simp: Let_def split: prod.splits option.splits)

lemma run_stage_sent_status:
  assumes "fst (run_stage c s req st) = Sent r"
  shows "status r \<in> {401, 403, 429}"
  using assms
  by (cases s)
     (auto simp: Let_def rateLimit_def handler_def authenticate_gw_def hasRole_def hasPermission_def
                 UNAUTHORIZED_def FORBIDDEN_def TOO_MANY_REQUESTS_def
           split: prod.splits option.splits if_splits sum.splits error.splits)

lemma run_chain_passed_keeps_outbound:
  "fst (run_chain c ss req st) = Passed req' \<Longrightarrow> outbound (snd (run_chain c ss req st)) = outbound st"
proof (induction ss arbitrary: req st)
  case Nil
  then show ?case by simp
next
  case (Cons s ss)
  obtain o1 st1 where step: "run_stage c s req st = (o1, st1)" by (cases "run_stage c s req st")
  show ?case
  proof (cases o1)
    case (Passed req1)
    with step Cons.prems have "fst (run_chain c ss req1 st1) = Passed req'" by simp
    then have "outbound (snd (run_chain c ss req1 st1)) = outbound st1" by (rule Cons.IH)
    moreover have "outbound st1 = outbound st"
      using run_stage_keeps_outbound [of c s req st req1] step Passed by simp
    ultimately show ?thesis using step Passed by simp
  qed (use step Cons.prems in auto)
qed

lemma run_chain_append:
  "run_chain c (xs @ ys) req st =
     (case run_chain c xs req st of
        (Passed req', st') \<Rightarrow> run_chain c ys req' st'
      | (other, st') \<Rightarrow> (other, st'))"
proof (induction xs arbitrary: req st)
  case Nil
  then show ?case by simp
next
  case (Cons x xs)
  obtain o1 st1 where step: "run_stage c x req st = (o1, st1)" by (cases "run_stage c x req st")
  show ?case using step Cons.IH by (cases o1) simp_all
qed

text \<open>
  C5. Take any chain and any stage of it, and suppose that the stages before it hand the
  request on and that this stage answers instead of calling \<^verbatim>\<open>next()\<close>. Then the chain
  ends with that answer whatever stages follow, the answer has status 401, 403 or 429, and
  the log of requests to backends is what it was before the chain ran: the proxy has not
  been invoked.
\<close>

theorem gate_rejection_stops_chain:
  assumes before: "fst (run_chain c before req st) = Passed req'"
    and gate: "fst (run_stage c gate req' (snd (run_chain c before req st))) = Sent r"
  shows "fst (run_chain c (before @ gate # rest) req st) = Sent r
       \<and> outbound (snd (run_chain c (before @ gate # rest) req st)) = outbound st
       \<and> status r \<in> {401, 403, 429}"
proof -
  obtain st1 where b: "run_chain c before req st = (Passed req', st1)"
    using before by (cases "run_chain c before req st") simp
  obtain st2 where g: "run_stage c gate req' st1 = (Sent r, st2)"
    using gate b by (cases "run_stage c gate req' st1") simp
  have whole: "run_chain c (before @ gate # rest) req st = (Sent r, st2)"
    using b g by (simp add: run_chain_append)
  have "outbound st1 = outbound st"
    using run_chain_passed_keeps_outbound [of c before req st req'] b by simp
  moreover have "outbound st2 = outbound st1"
    using run_stage_keeps_outbound [of c gate req' st1 _ r] g by simp
  moreover have "status r \<in> {401, 403, 429}"
    using run_stage_sent_status [of c gate req' st1 r] g by simp
  ultimately show ?thesis using whole by simp
qed

theorem gate_rejection_stops_chain_witness:
  "fst (run_chain sample_ctx
          ([RateLimit Standard] @ Authenticate True
             # [SetTarget ''contact'' ''http://contact-service:3005'',
                Proxy ''http://contact-service:3005''])
          (sample_request\<lparr>authorization := None\<rparr>) sample_state)
     = Sent \<lparr>status = 401,
              body = FormatError ''Authentication required'' ''No token provided''\<rparr>
   \<and> outbound (snd (run_chain sample_ctx
          ([RateLimit Standard] @ Authenticate True
             # [SetTarget ''contact'' ''http://contact-service:3005'',
                Proxy ''http://contact-service:3005''])
          (sample_request\<lparr>authorization := None\<rparr>) sample_state)) = []"
proof -
  have before: "fst (run_chain sample_ctx [RateLimit Standard]
                       (sample_request\<lparr>authorization := None\<rparr>) sample_state)
                  = Passed (sample_request\<lparr>authorization := None\<rparr>)"
    by code_simp
  have gate: "fst (run_stage sample_ctx (Authenticate True)
                     (sample_request\<lparr>authorization := None\<rparr>)
                     (snd (run_chain sample_ctx [RateLimit Standard]
                             (sample_request\<lparr>authorization := None\<rparr>) sample_state)))
                = Sent \<lparr>status = 401,
                         body = FormatError ''Authentication required'' ''No token provided''\<rparr>"
    by code_simp
  show ?thesis
    using gate_rejection_stops_chain [OF before gate,
            of "[SetTarget ''contact'' ''http://contact-service:3005'',
                 Proxy ''http://contact-service:3005'']"]
    by (simp add: sample_state_def)
qed

section \<open>Properties of the rate limiter\<close>






lemma fifteen_minutes: "show_int (minutes_of 900000) = ''15''"
  by code_simp


lemma standard_limiter_options:
  "windowMs (standardLimiter cfg) = windowMs (rateLimiter cfg)
   \<and> max_hits (standardLimiter cfg) = max_hits (rateLimiter cfg)"
  by (simp add: standardLimiter_def createRateLimiter_def Let_def)

lemma shipped_standard_class:
  "windowMs (standardLimiter (config ev)) = 900000 \<and> max_hits (standardLimiter (config ev)) = 100
   \<and> handler (standardLimiter (config ev)) =
        \<lparr>status = 429,
         body = FormatError ''Too many requests'' ''Please try again after 15 minutes''\<rparr>"
  by (simp add: standard_limiter_options config_def handler_def TOO_MANY_REQUESTS_def
                fifteen_minutes)




section \<open>Properties of the identity headers\<close>























lemma onProxyReq_target:
  "onProxyReq hs (req\<lparr>targetService := x\<rparr>) = onProxyReq hs req"
  by (simp add: onProxyReq_def)

lemma authenticate_gw_keeps:
  assumes "authenticate_gw b cfg client now req = Next req'"
  shows "req_method req' = req_method req \<and> req_path req' = req_path req
       \<and> req_search req' = req_search req \<and> req_headers req' = req_headers req
       \<and> req_id req' = req_id req"
  using assms
  by (auto simp: authenticate_gw_def Let_def split: if_splits option.splits sum.splits error.splits)

lemma route_chain_forwards:
  assumes admitted: "fst (run_stage c (RateLimit (route_limiter svc r)) req st) = Passed req"
    and authd: "authenticate_gw (route_auth r) (config (ctx_env c)) (ctx_client c) (ctx_now c) req
                  = Next req'"
  shows "outbound (snd (run_chain c (route_chain serviceKey svc r) req st))
           = outbound st @ [\<lparr>out_target = svc_target svc, out_method = req_method req,
                              out_path = originalUrl req,
                              out_headers = onProxyReq (req_headers req) req'\<rparr>]"
    and "fst (run_chain c (route_chain serviceKey svc r) req st)
           = (case ctx_backend c \<lparr>out_target = svc_target svc, out_method = req_method req,
                                   out_path = originalUrl req,
                                   out_headers = onProxyReq (req_headers req) req'\<rparr> of
                Some resp \<Rightarrow> Upstream resp
              | None \<Rightarrow> ProxyFailed)"
proof -
  obtain st1 where lim: "run_stage c (RateLimit (route_limiter svc r)) req st = (Passed req, st1)"
    using admitted by (cases "run_stage c (RateLimit (route_limiter svc r)) req st") simp
  have ob: "outbound st1 = outbound st"
    using run_stage_keeps_outbound [of c "RateLimit (route_limiter svc r)" req st req] lim by simp
  note keeps = authenticate_gw_keeps [OF authd]
  show "outbound (snd (run_chain c (route_chain serviceKey svc r) req st))
           = outbound st @ [\<lparr>out_target = svc_target svc, out_method = req_method req,
                              out_path = originalUrl req,
                              out_headers = onProxyReq (req_headers req) req'\<rparr>]"
    using lim authd ob keeps
    by (simp add: route_chain_shape route_limiter_def Let_def onProxyReq_target originalUrl_def
             del: run_stage.simps(1) split: option.splits)
  show "fst (run_chain c (route_chain serviceKey svc r) req st)
           = (case ctx_backend c \<lparr>out_target = svc_target svc, out_method = req_method req,
                                   out_path = originalUrl req,
                                   out_headers = onProxyReq (req_headers req) req'\<rparr> of
                Some resp \<Rightarrow> Upstream resp
              | None \<Rightarrow> ProxyFailed)"
    using lim authd ob keeps
    by (simp add: route_chain_shape route_limiter_def Let_def onProxyReq_target originalUrl_def
             del: run_stage.simps(1) split: option.splits)
qed


lemma authenticate_gw_optional_failure:
  assumes "extractToken_gw cfg req = Some t" and "\<not> no_token (Some t)"
    and "verifyToken_gw cfg client now t = Inl e"
  shows "authenticate_gw False cfg client now req = Next (req\<lparr>user := None\<rparr>)"
  using assms by (cases e) (simp add: authenticate_gw_def)





lemma optional_auth_failure_passes:
  assumes public: "\<not> route_auth r"
    and admitted: "fst (run_stage c (RateLimit (route_limiter svc r)) req st) = Passed req"
    and tok: "extractToken_gw (config (ctx_env c)) req = Some t" "\<not> no_token (Some t)"
    and bad: "verifyToken_gw (config (ctx_env c)) (ctx_client c) (ctx_now c) t = Inl e"
  shows "authenticate_gw (route_auth r) (config (ctx_env c)) (ctx_client c) (ctx_now c) req
           = Next (req\<lparr>user := None\<rparr>)
       \<and> outbound (snd (run_chain c (route_chain serviceKey svc r) req st))
           = outbound st @ [\<lparr>out_target = svc_target svc, out_method = req_method req,
                              out_path = originalUrl req,
                              out_headers = setHeader ''X-Request-ID'' (req_id req)
                                              (req_headers req)\<rparr>]"
proof -
  have authd: "authenticate_gw (route_auth r) (config (ctx_env c)) (ctx_client c) (ctx_now c) req
           = Next (req\<lparr>user := None\<rparr>)"
    using authenticate_gw_optional_failure [OF tok bad] public by simp
  have hdrs: "onProxyReq (req_headers req) (req\<lparr>user := None\<rparr>)
                = setHeader ''X-Request-ID'' (req_id req) (req_headers req)"
    by (simp add: onProxyReq_def)
  from authd route_chain_forwards(1) [OF admitted authd, of serviceKey] hdrs show ?thesis by simp
qed

end
